theory Spec2Isabelle
  imports Main "HOL-Library.Sublist"
begin

section \<open>Python strings\<close>

text \<open>
  A Python \<open>str\<close> is a sequence of Unicode code points, modelled as a list of
  naturals. The bytes of a file on disk are a list of \<open>char\<close> (8 bits each).
  \<open>lit\<close> embeds an ASCII literal of the source as a \<open>str\<close>.
\<close>

type_synonym pystr = "nat list"

definition lit :: "string \<Rightarrow> pystr" where
  "lit s = map of_char s"

text \<open>\<open>needle in hay\<close> for strings: some suffix of \<open>hay\<close> starts with \<open>needle\<close>.\<close>

fun any_suffix :: "('a list \<Rightarrow> bool) \<Rightarrow> 'a list \<Rightarrow> bool" where
  "any_suffix P [] = P []"
| "any_suffix P (c # cs) = (P (c # cs) \<or> any_suffix P cs)"

definition contains :: "'a list \<Rightarrow> 'a list \<Rightarrow> bool" where
  "contains needle hay = any_suffix (prefix needle) hay"

text \<open>
  \<open>str.isspace\<close> on one code point (\<open>Py_UNICODE_ISSPACE\<close>); the class \<open>\s\<close> of
  \<open>re\<close> on a \<open>str\<close> pattern and \<open>str.strip()\<close> both use it.
\<close>

definition is_space :: "nat \<Rightarrow> bool" where
  "is_space c =
     ((9 \<le> c \<and> c \<le> 13) \<or> (28 \<le> c \<and> c \<le> 32) \<or> c = 133 \<or> c = 160 \<or> c = 5760
      \<or> (8192 \<le> c \<and> c \<le> 8202) \<or> c = 8232 \<or> c = 8233 \<or> c = 8239 \<or> c = 8287
      \<or> c = 12288)"

definition strip :: "pystr \<Rightarrow> pystr" where
  "strip s = rev (dropWhile is_space (rev (dropWhile is_space s)))"

text \<open>\<open>s.replace(old, new)\<close> for one-character \<open>old\<close> and \<open>new\<close>.\<close>

definition replace_char :: "nat \<Rightarrow> nat \<Rightarrow> pystr \<Rightarrow> pystr" where
  "replace_char old new s = map (\<lambda>c. if c = old then new else c) s"

text \<open>
  \<open>s.replace(old, '')\<close> for a non-empty \<open>old\<close>: the occurrences are found from the
  left and do not overlap. \<open>skip\<close> counts the characters of an occurrence still to drop.
\<close>

fun remove_all_from :: "pystr \<Rightarrow> nat \<Rightarrow> pystr \<Rightarrow> pystr" where
  "remove_all_from old skip [] = []"
| "remove_all_from old (Suc k) (c # cs) = remove_all_from old k cs"
| "remove_all_from old 0 (c # cs) =
     (if prefix old (c # cs) then remove_all_from old (length old - 1) cs
      else c # remove_all_from old 0 cs)"

definition remove_all :: "pystr \<Rightarrow> pystr \<Rightarrow> pystr" where
  "remove_all old s = remove_all_from old 0 s"

text \<open>
  Case mapping, given for the ASCII letters. Every other code point is left unchanged,
  as Python leaves every code point that has no case; the functions are those of Python
  on every text whose cased letters are ASCII letters.
\<close>

definition is_lower :: "nat \<Rightarrow> bool" where
  "is_lower c = (97 \<le> c \<and> c \<le> 122)"

definition is_upper :: "nat \<Rightarrow> bool" where
  "is_upper c = (65 \<le> c \<and> c \<le> 90)"

definition is_cased :: "nat \<Rightarrow> bool" where
  "is_cased c = (is_lower c \<or> is_upper c)"

definition to_upper :: "nat \<Rightarrow> nat" where
  "to_upper c = (if is_lower c then c - 32 else c)"

definition to_lower :: "nat \<Rightarrow> nat" where
  "to_lower c = (if is_upper c then c + 32 else c)"

definition upper :: "pystr \<Rightarrow> pystr" where
  "upper s = map to_upper s"

text \<open>
  \<open>str.title()\<close>: a cased character is lowered when the character before it is cased,
  and title-cased (for ASCII: uppercased) otherwise.
\<close>

fun title_from :: "bool \<Rightarrow> pystr \<Rightarrow> pystr" where
  "title_from previous_is_cased [] = []"
| "title_from previous_is_cased (c # cs) =
     (if previous_is_cased then to_lower c else to_upper c) # title_from (is_cased c) cs"

definition title :: "pystr \<Rightarrow> pystr" where
  "title s = title_from False s"

text \<open>\<open>str(n)\<close> for a non-negative integer: its decimal digits.\<close>

fun str_nat :: "nat \<Rightarrow> pystr" where
  "str_nat n = (if n < 10 then [48 + n] else str_nat (n div 10) @ [48 + n mod 10])"

section \<open>The regular expressions of the extractor\<close>

text \<open>
  The four patterns are matched by \<open>re.search\<close>, a backtracking matcher: it tries the
  start positions from the left and, at each, the alternatives of the pattern in their
  order of preference. The pieces below are the constructs the patterns use, each taking
  the rest of the text at the current position.
\<close>

text \<open>A literal: the rest of the text after it, when the text starts with it.\<close>

fun strip_prefix :: "pystr \<Rightarrow> pystr \<Rightarrow> pystr option" where
  "strip_prefix [] s = Some s"
| "strip_prefix (p # ps) [] = None"
| "strip_prefix (p # ps) (c # cs) = (if p = c then strip_prefix ps cs else None)"

text \<open>
  \<open>(.*?)(?=look)\<close> under \<open>re.DOTALL\<close>: the lazy group takes the fewest characters
  such that the lookahead holds at the position after them.
\<close>

fun lazy_dotall :: "(pystr \<Rightarrow> bool) \<Rightarrow> pystr \<Rightarrow> pystr option" where
  "lazy_dotall look [] = (if look [] then Some [] else None)"
| "lazy_dotall look (c # cs) =
     (if look (c # cs) then Some []
      else map_option (\<lambda>g. c # g) (lazy_dotall look cs))"

text \<open>
  \<open>\s*\<close> followed by the rest \<open>k\<close> of the pattern: greedy, so the longest run of
  whitespace is tried first, and one character is given back each time \<open>k\<close> fails.
\<close>

fun greedy_ws :: "(pystr \<Rightarrow> 'a option) \<Rightarrow> pystr \<Rightarrow> 'a option" where
  "greedy_ws k [] = k []"
| "greedy_ws k (c # cs) =
     (if is_space c
      then (case greedy_ws k cs of Some r \<Rightarrow> Some r | None \<Rightarrow> k (c # cs))
      else k (c # cs))"

text \<open>\<open>(.*)\<close> without \<open>re.DOTALL\<close>, at the end of a pattern: the rest of the line.\<close>

definition rest_of_line :: "pystr \<Rightarrow> pystr" where
  "rest_of_line s = takeWhile (\<lambda>c. c \<noteq> 10) s"

text \<open>\<open>re.search\<close>: the match at the leftmost start position that has one.\<close>

fun re_search :: "(pystr \<Rightarrow> 'a option) \<Rightarrow> pystr \<Rightarrow> 'a option" where
  "re_search m [] = m []"
| "re_search m (c # cs) =
     (case m (c # cs) of Some r \<Rightarrow> Some r | None \<Rightarrow> re_search m cs)"

text \<open>The lookaheads \<open>(?=\n\nUsage:|Parameters:|Usage:)\<close> and \<open>(?=\n\n|\nParameters:|\nInput)\<close>.\<close>

definition desc_look :: "pystr \<Rightarrow> bool" where
  "desc_look s =
     (prefix (lit ''\<newline>\<newline>Usage:'') s \<or> prefix (lit ''Parameters:'') s
      \<or> prefix (lit ''Usage:'') s)"

definition usage_look :: "pystr \<Rightarrow> bool" where
  "usage_look s =
     (prefix (lit ''\<newline>\<newline>'') s \<or> prefix (lit ''\<newline>Parameters:'') s
      \<or> prefix (lit ''\<newline>Input'') s)"

text \<open>
  A pattern \<open>label\s*(.*?)(?=look)\<close> at one start position, and searched in a text;
  the result is \<open>group(1)\<close> of the match.
\<close>

definition label_block_at :: "pystr \<Rightarrow> (pystr \<Rightarrow> bool) \<Rightarrow> pystr \<Rightarrow> pystr option" where
  "label_block_at label look s =
     (case strip_prefix label s of
        None \<Rightarrow> None
      | Some r \<Rightarrow> greedy_ws (lazy_dotall look) r)"

definition desc_match :: "pystr \<Rightarrow> pystr option" where
  "desc_match content = re_search (label_block_at (lit ''Description:'') desc_look) content"

definition usage_match :: "pystr \<Rightarrow> pystr option" where
  "usage_match content = re_search (label_block_at (lit ''Usage:'') usage_look) content"

text \<open>A pattern \<open>label(.*)\<close> at one start position.\<close>

definition label_line_at :: "pystr \<Rightarrow> pystr \<Rightarrow> pystr option" where
  "label_line_at label s = map_option rest_of_line (strip_prefix label s)"

definition author_match :: "pystr \<Rightarrow> pystr option" where
  "author_match content = re_search (label_line_at (lit ''Written by '')) content"

definition modified_match :: "pystr \<Rightarrow> pystr option" where
  "modified_match content = re_search (label_line_at (lit ''Last modified '')) content"


section \<open>Reading a script\<close>

text \<open>
  The state of an input file, as \<open>open(path, 'r', encoding='utf-8', errors='ignore')\<close>
  and \<open>f.read()\<close> meet it: opening raises, or the file has bytes.
\<close>

datatype input_file = NoSuchFile | PermissionDenied | Bytes "char list"

definition is_cont :: "nat \<Rightarrow> bool" where
  "is_cont b = (128 \<le> b \<and> b < 192)"

text \<open>
  The UTF-8 decoder with \<open>errors='ignore'\<close>: a byte that cannot start a sequence is
  dropped, a sequence broken by a wrong continuation byte loses the bytes before that
  byte, a sequence cut by the end of the data is dropped. It never raises.
\<close>

fun utf8_decode_ignore :: "char list \<Rightarrow> pystr" where
  "utf8_decode_ignore [] = []"
| "utf8_decode_ignore (b # bs) =
     (let ch = of_char b in
      if ch < 128 then ch # utf8_decode_ignore bs
      else if ch < 194 then utf8_decode_ignore bs
      else if ch < 224 then
        (case bs of
           [] \<Rightarrow> []
         | b2 # r2 \<Rightarrow>
             let ch2 = of_char b2 in
             if \<not> is_cont ch2 then utf8_decode_ignore bs
             else ((ch - 192) * 64 + (ch2 - 128)) # utf8_decode_ignore r2)
      else if ch < 240 then
        (case bs of
           [] \<Rightarrow> []
         | b2 # r2 \<Rightarrow>
             let ch2 = of_char b2 in
             if \<not> is_cont ch2 \<or> (if ch2 < 160 then ch = 224 else ch = 237)
             then utf8_decode_ignore bs
             else
               (case r2 of
                  [] \<Rightarrow> []
                | b3 # r3 \<Rightarrow>
                    let ch3 = of_char b3 in
                    if \<not> is_cont ch3 then utf8_decode_ignore r2
                    else ((ch - 224) * 4096 + (ch2 - 128) * 64 + (ch3 - 128))
                           # utf8_decode_ignore r3))
      else if ch < 245 then
        (case bs of
           [] \<Rightarrow> []
         | b2 # r2 \<Rightarrow>
             let ch2 = of_char b2 in
             if \<not> is_cont ch2 \<or> (if ch2 < 144 then ch = 240 else ch = 244)
             then utf8_decode_ignore bs
             else
               (case r2 of
                  [] \<Rightarrow> []
                | b3 # r3 \<Rightarrow>
                    let ch3 = of_char b3 in
                    if \<not> is_cont ch3 then utf8_decode_ignore r2
                    else
                      (case r3 of
                         [] \<Rightarrow> []
                       | b4 # r4 \<Rightarrow>
                           let ch4 = of_char b4 in
                           if \<not> is_cont ch4 then utf8_decode_ignore r3
                           else ((ch - 240) * 262144 + (ch2 - 128) * 4096
                                 + (ch3 - 128) * 64 + (ch4 - 128))
                                  # utf8_decode_ignore r4)))
      else utf8_decode_ignore bs)"

text \<open>Text mode reads \<open>\r\n\<close> and a lone \<open>\r\<close> as \<open>\n\<close>.\<close>

fun universal_newlines :: "pystr \<Rightarrow> pystr" where
  "universal_newlines [] = []"
| "universal_newlines [c] = [if c = 13 then 10 else c]"
| "universal_newlines (c # d # cs) =
     (if c = 13 \<and> d = 10 then 10 # universal_newlines cs
      else if c = 13 then 10 # universal_newlines (d # cs)
      else c # universal_newlines (d # cs))"

text \<open>The \<open>try\<close> block of \<open>extract_tool_info\<close>: \<open>None\<close> is the \<open>except\<close> branch.\<close>

definition read_text :: "input_file \<Rightarrow> pystr option" where
  "read_text f =
     (case f of
        NoSuchFile \<Rightarrow> None
      | PermissionDenied \<Rightarrow> None
      | Bytes bs \<Rightarrow> Some (universal_newlines (utf8_decode_ignore bs)))"

section \<open>The extractor\<close>

definition extract_description :: "pystr \<Rightarrow> pystr" where
  "extract_description content =
     (let description = (case desc_match content of Some g \<Rightarrow> strip g | None \<Rightarrow> [])
      in replace_char 10 32 description)"

definition extract_usage :: "pystr \<Rightarrow> pystr" where
  "extract_usage content = (case usage_match content of Some g \<Rightarrow> strip g | None \<Rightarrow> [])"

definition extract_author :: "pystr \<Rightarrow> pystr" where
  "extract_author content =
     (case author_match content of Some g \<Rightarrow> g | None \<Rightarrow> lit ''Brian Bushnell'')"

definition extract_last_modified :: "pystr \<Rightarrow> pystr" where
  "extract_last_modified content =
     (case modified_match content of Some g \<Rightarrow> g | None \<Rightarrow> [])"

text \<open>
  \<open>extract_tool_info\<close> returns \<open>(description, usage, last_modified)\<close>, or three
  \<open>None\<close> when the file cannot be read. The local \<open>author\<close> is computed and is not
  part of the value returned.
\<close>

definition extract_tool_info :: "input_file \<Rightarrow> pystr option \<times> pystr option \<times> pystr option" where
  "extract_tool_info f =
     (case read_text f of
        None \<Rightarrow> (None, None, None)
      | Some content \<Rightarrow>
          let description = extract_description content;
              usage = extract_usage content;
              author = extract_author content;
              last_modified = extract_last_modified content
          in (Some description, Some usage, Some last_modified))"

section \<open>The renderer\<close>

text \<open>Truth of a value that is \<open>None\<close> or a \<open>str\<close>, and \<open>x if x else y\<close>.\<close>

definition truthy :: "pystr option \<Rightarrow> bool" where
  "truthy x = (case x of None \<Rightarrow> False | Some s \<Rightarrow> s \<noteq> [])"

definition or_else :: "pystr option \<Rightarrow> pystr \<Rightarrow> pystr" where
  "or_else x y = (case x of None \<Rightarrow> y | Some s \<Rightarrow> if s = [] then y else s)"

definition display_name :: "pystr \<Rightarrow> pystr" where
  "display_name tool_name =
     (let display_name = replace_char 95 32 (upper tool_name)
      in if prefix (lit ''BB'') display_name
         then lit ''BB'' @ title (drop 2 display_name)
         else display_name)"

text \<open>
  The file \<open>data/version.json\<close> under \<open>WEBSITE_DIR\<close>, as the renderer meets it: it does
  not exist; it exists and opening or reading it raises; \<open>json.load\<close> raises; or
  \<open>json.load\<close> returns a document. A document is a \<open>dict\<close> or another value (on which
  \<open>.get\<close> raises); a value of the \<open>dict\<close> is a \<open>str\<close>, or another value given by the
  text \<open>str()\<close> makes of it.
\<close>

datatype json_value = Str pystr | NonStr pystr

datatype document = Dict "pystr \<Rightarrow> json_value option" | NotDict

datatype sidecar = Absent | Unreadable | Malformed | Parsed document

definition py_str :: "json_value \<Rightarrow> pystr" where
  "py_str v = (case v of Str s \<Rightarrow> s | NonStr r \<Rightarrow> r)"

definition default_version :: pystr where
  "default_version = lit ''39.34''"

definition read_version :: "sidecar \<Rightarrow> pystr" where
  "read_version sc =
     (case sc of
        Absent \<Rightarrow> default_version
      | Unreadable \<Rightarrow> default_version
      | Malformed \<Rightarrow> default_version
      | Parsed NotDict \<Rightarrow> default_version
      | Parsed (Dict data) \<Rightarrow>
          (case data (lit ''version'') of
             None \<Rightarrow> default_version
           | Some v \<Rightarrow> py_str v))"

text \<open>The fixed text of the template, between the fields.\<close>

definition page_head :: pystr where
  \<open>page_head = lit (concat
    [''<!DOCTYPE html>\<newline>'',
     ''<html lang="en">\<newline>'',
     ''<head>\<newline>'',
     ''    <meta charset="UTF-8">\<newline>'',
     ''    <meta name="viewport" content="width=device-width, initial-scale=1.0">\<newline>'',
     ''    <title>''])\<close>

definition page_meta :: pystr where
  \<open>page_meta = lit (concat
    ['' - BBTools</title>\<newline>'',
     ''    <meta name="description" content="''])\<close>

definition page_nav_a :: pystr where
  \<open>page_nav_a = lit (concat
    [''">\<newline>'',
     ''    <link rel="stylesheet" href="../styles.css">\<newline>'',
     ''    <style>\<newline>'',
     ''        .tool-header {\<newline>'',
     ''            background: linear-gradient(135deg, #667eea 0%, #764ba2 100%);\<newline>'',
     ''            color: white;\<newline>'',
     ''            padding: 3rem 0;\<newline>'',
     ''            margin-bottom: 2rem;\<newline>'',
     ''        }\<newline>'',
     ''        .tool-nav {\<newline>'',
     ''            background: #f8f9fa;\<newline>'',
     ''            padding: 1rem 0;\<newline>'',
     ''            margin-bottom: 2rem;\<newline>'',
     ''        }\<newline>'',
     ''        .tool-nav a {\<newline>'',
     ''            margin: 0 1rem;\<newline>'',
     ''            color: #667eea;\<newline>'',
     ''            text-decoration: none;\<newline>'',
     ''        }\<newline>'',
     ''        .tool-nav a:hover {\<newline>'',
     ''            text-decoration: underline;\<newline>'',
     ''        }\<newline>'',
     ''        .usage-box {\<newline>'',
     ''            background: #f4f4f4;\<newline>'',
     ''            border-left: 4px solid #667eea;\<newline>'',
     ''            padding: 1rem;\<newline>'',
     ''            margin: 1rem 0;\<newline>'',
     ''            font-family: monospace;\<newline>'',
     ''            overflow-x: auto;\<newline>'',
     ''        }\<newline>'',
     ''        .info-box {\<newline>'',
     ''            background: #e8f4fd;\<newline>'',
     ''            border: 1px solid #bee5f0;\<newline>'',
     ''            padding: 1rem;\<newline>'',
     ''            margin: 1rem 0;\<newline>'',
     ''            border-radius: 4px;\<newline>'',
     ''        }\<newline>'',
     ''    </style>\<newline>'',
     ''</head>\<newline>'',
     ''<body>\<newline>'',
     ''    <nav class="tool-nav">\<newline>'',
     ''        <div class="container">\<newline>'',
     ''            <a href="../index.html">''])\<close>

definition page_nav_b :: pystr where
  \<open>page_nav_b = lit (concat
    ['' BBTools Home</a>\<newline>'',
     ''            <a href="../index.html#tools">All Tools</a>\<newline>'',
     ''            <a href="https://github.com/bbushnell/BBTools/blob/master/''])\<close>

definition page_nav :: pystr where
  \<open>page_nav = page_nav_a @ [8592] @ page_nav_b\<close>

definition page_header :: pystr where
  \<open>page_header = lit (concat
    [''.sh" target="_blank">View Source</a>\<newline>'',
     ''        </div>\<newline>'',
     ''    </nav>\<newline>'',
     ''    \<newline>'',
     ''    <header class="tool-header">\<newline>'',
     ''        <div class="container">\<newline>'',
     ''            <h1>''])\<close>

definition page_h1 :: pystr where
  \<open>page_h1 = lit (concat
    [''</h1>\<newline>'',
     ''            <p>''])\<close>

definition page_usage :: pystr where
  \<open>page_usage = lit (concat
    [''</p>\<newline>'',
     ''        </div>\<newline>'',
     ''    </header>\<newline>'',
     ''    \<newline>'',
     ''    <main class="container">\<newline>'',
     ''        <section id="usage">\<newline>'',
     ''            <h2>Usage</h2>\<newline>'',
     ''            <div class="usage-box">\<newline>'',
     ''                ''])\<close>

definition page_about :: pystr where
  \<open>page_about = lit (concat
    [''\<newline>'',
     ''            </div>\<newline>'',
     ''        </section>\<newline>'',
     ''        \<newline>'',
     ''        <section id="description">\<newline>'',
     ''            <h2>About This Tool</h2>\<newline>'',
     ''            <p>''])\<close>

definition page_info :: pystr where
  \<open>page_info = lit (concat
    [''</p>\<newline>'',
     ''            <div class="info-box">\<newline>'',
     ''                <strong>Last Updated:</strong> ''])\<close>

definition page_author :: pystr where
  \<open>page_author = lit (concat
    [''<br>\<newline>'',
     ''                <strong>Author:</strong> Brian Bushnell<br>\<newline>'',
     ''                <strong>Version:</strong> BBTools v''])\<close>

definition page_examples :: pystr where
  \<open>page_examples = lit (concat
    [''\<newline>'',
     ''            </div>\<newline>'',
     ''        </section>\<newline>'',
     ''        \<newline>'',
     ''        <section id="examples">\<newline>'',
     ''            <h2>Examples</h2>\<newline>'',
     ''            <p>For detailed parameters and examples, run:</p>\<newline>'',
     ''            <div class="usage-box">''])\<close>

definition page_tail :: pystr where
  \<open>page_tail = lit (concat
    [''.sh</div>\<newline>'',
     ''            <p>This will display the help message with all available options.</p>\<newline>'',
     ''        </section>\<newline>'',
     ''        \<newline>'',
     ''        <section id="links">\<newline>'',
     ''            <h2>Additional Resources</h2>\<newline>'',
     ''            <ul>\<newline>'',
     ''                <li><a href="https://github.com/bbushnell/BBTools/tree/master/docs">Documentation</a></li>\<newline>'',
     ''                <li><a href="https://sourceforge.net/projects/bbmap/">Download BBTools</a></li>\<newline>'',
     ''                <li><a href="../index.html#citation">How to Cite</a></li>\<newline>'',
     ''            </ul>\<newline>'',
     ''        </section>\<newline>'',
     ''    </main>\<newline>'',
     ''    \<newline>'',
     ''    <footer>\<newline>'',
     ''        <div class="container">\<newline>'',
     ''            <p>BBTools by Brian Bushnell | <a href="https://bbmap.org">bbmap.org</a></p>\<newline>'',
     ''        </div>\<newline>'',
     ''    </footer>\<newline>'',
     ''</body>\<newline>'',
     ''</html>''])\<close>

definition generate_tool_page ::
  "sidecar \<Rightarrow> pystr \<Rightarrow> pystr option \<Rightarrow> pystr option \<Rightarrow> pystr option \<Rightarrow> pystr" where
  "generate_tool_page version_file tool_name description usage last_modified =
     (let display_name = display_name tool_name;
          version = read_version version_file
      in page_head @ display_name
         @ page_meta
         @ (if truthy description then take 155 (the description)
            else display_name @ lit '' - BBTools bioinformatics tool'')
         @ page_nav @ tool_name
         @ page_header @ display_name
         @ page_h1 @ or_else description (lit ''A tool in the BBTools suite'')
         @ page_usage @ or_else usage (tool_name @ lit ''.sh [parameters]'')
         @ page_about
         @ or_else description
             (display_name @ lit '' is part of the BBTools suite of bioinformatics tools.'')
         @ page_info @ or_else last_modified (lit ''See source'')
         @ page_author @ version
         @ page_examples @ tool_name
         @ page_tail)"

section \<open>The driver\<close>

text \<open>
  Paths are Windows paths: \<open>os.path.join\<close> puts a backslash (code 92) between a
  directory and a relative name, and \<open>os.path.basename\<close> drops a drive letter and
  everything up to the last slash or backslash (the paths \<open>glob.glob\<close> returns here
  start with \<open>BBTOOLS_DIR\<close>, a drive letter and directories).
\<close>

definition join :: "pystr \<Rightarrow> pystr \<Rightarrow> pystr" where
  "join dir name = dir @ [92] @ name"

definition basename :: "pystr \<Rightarrow> pystr" where
  "basename p =
     (let r = (if 2 \<le> length p \<and> p ! 1 = 58 then drop 2 p else p)
      in rev (takeWhile (\<lambda>c. c \<noteq> 47 \<and> c \<noteq> 92) (rev r)))"

definition BBTOOLS_DIR :: pystr where
  "BBTOOLS_DIR = lit ''C:'' @ [92] @ lit ''releases'' @ [92] @ lit ''bbmap''"

definition WEBSITE_DIR :: pystr where
  "WEBSITE_DIR = lit ''C:'' @ [92] @ lit ''releases'' @ [92] @ lit ''bbmap_website''"

definition TOOLS_DIR :: pystr where
  "TOOLS_DIR = join WEBSITE_DIR (lit ''tools'')"

text \<open>
  What a run meets outside the program: whether \<open>os.makedirs\<close> succeeds, the paths
  \<open>glob.glob\<close> returns, the state of the file at each path, the state of the version
  file, whether opening a path for writing and writing it succeeds, and whether
  \<open>print\<close> can write a text to standard output (it raises \<open>UnicodeEncodeError\<close> for a
  text that the encoding of the stream cannot encode).
\<close>

record env =
  makedirs_ok :: bool
  shell_scripts :: "pystr list"
  file_at :: "pystr \<Rightarrow> input_file"
  version_file :: sidecar
  writable :: "pystr \<Rightarrow> bool"
  printable :: "pystr \<Rightarrow> bool"

text \<open>
  What a run has done so far: the texts printed, one per call of \<open>print\<close>; the files
  written, path and text, in order; the two counters.
\<close>

record state =
  stdout :: "pystr list"
  files :: "(pystr \<times> pystr) list"
  generated :: nat
  skipped :: nat

datatype error = OSError | UnicodeEncodeError

text \<open>
  A statement ends in a state, or raises: then the exception and the state reached are
  kept, and nothing after the statement runs.
\<close>

type_synonym outcome = "(error \<times> state) + state"

definition and_then :: "outcome \<Rightarrow> (state \<Rightarrow> outcome) \<Rightarrow> outcome" where
  "and_then r f = (case r of Inl err \<Rightarrow> Inl err | Inr s \<Rightarrow> f s)"

definition py_print :: "env \<Rightarrow> state \<Rightarrow> pystr \<Rightarrow> outcome" where
  "py_print e s text =
     (if printable e text then Inr (s\<lparr>stdout := stdout s @ [text]\<rparr>)
      else Inl (UnicodeEncodeError, s))"

fun print_all :: "env \<Rightarrow> state \<Rightarrow> pystr list \<Rightarrow> outcome" where
  "print_all e s [] = Inr s"
| "print_all e s (l # ls) = and_then (py_print e s l) (\<lambda>s'. print_all e s' ls)"

definition excluded :: "pystr list" where
  "excluded = [lit ''calcmem'', lit ''javasetup'', lit ''memdetect'', lit ''Xcalcmem'']"

text \<open>The tool name of a script, the path of its page, and its two progress lines.\<close>

definition tool_name_of :: "pystr \<Rightarrow> pystr" where
  "tool_name_of script_path = remove_all (lit ''.sh'') (basename script_path)"

definition output_file_of :: "pystr \<Rightarrow> pystr" where
  "output_file_of tool_name = join TOOLS_DIR (tool_name @ lit ''.html'')"

definition generated_line :: "pystr \<Rightarrow> pystr" where
  "generated_line tool_name = lit ''  Generated: '' @ tool_name @ lit ''.html''"

definition skipped_line :: "pystr \<Rightarrow> pystr" where
  "skipped_line tool_name = lit ''  Skipped: '' @ tool_name @ lit '' (no description found)''"

text \<open>
  The body of the loop of \<open>main\<close>, for one script. Neither writing the page nor
  printing the progress line is inside a \<open>try\<close>: when one raises, the exception leaves
  the loop. The progress line is printed after the page is written and before the
  counter is incremented.
\<close>

definition process_script :: "env \<Rightarrow> state \<Rightarrow> pystr \<Rightarrow> outcome" where
  "process_script e s script_path =
     (let tool_name = tool_name_of script_path in
      if tool_name \<in> set excluded then Inr (s\<lparr>skipped := skipped s + 1\<rparr>)
      else
        (case extract_tool_info (file_at e script_path) of
           (description, usage, last_modified) \<Rightarrow>
             if truthy description \<or> truthy usage then
               (let html = generate_tool_page (version_file e) tool_name
                             description usage last_modified;
                    output_file = output_file_of tool_name
                in if writable e output_file
                   then and_then
                          (py_print e (s\<lparr>files := files s @ [(output_file, html)]\<rparr>)
                             (generated_line tool_name))
                          (\<lambda>s'. Inr (s'\<lparr>generated := generated s' + 1\<rparr>))
                   else Inl (OSError, s))
             else
               and_then (py_print e s (skipped_line tool_name))
                 (\<lambda>s'. Inr (s'\<lparr>skipped := skipped s' + 1\<rparr>))))"

fun run_scripts :: "env \<Rightarrow> pystr list \<Rightarrow> state \<Rightarrow> outcome" where
  "run_scripts e [] s = Inr s"
| "run_scripts e (p # ps) s =
     (case process_script e s p of
        Inl err \<Rightarrow> Inl err
      | Inr s' \<Rightarrow> run_scripts e ps s')"

text \<open>
  The three lines printed first, the state before them and the state after them, and
  the five lines of the summary.
\<close>

definition banner :: "pystr list" where
  "banner =
     [lit ''Generating tool pages...'',
      lit ''Reading from: '' @ BBTOOLS_DIR,
      lit ''Writing to: '' @ TOOLS_DIR]"

definition initial :: state where
  "initial = \<lparr>stdout = [], files = [], generated = 0, skipped = 0\<rparr>"

definition start :: state where
  "start = initial\<lparr>stdout := banner\<rparr>"

definition summary_lines :: "nat \<Rightarrow> nat \<Rightarrow> pystr list" where
  "summary_lines g k =
     [lit ''\<newline>Summary:'',
      lit ''  Generated: '' @ str_nat g @ lit '' pages'',
      lit ''  Skipped: '' @ str_nat k @ lit '' scripts'',
      lit ''\<newline>Tool pages created in: '' @ TOOLS_DIR,
      lit ''\<newline>Run deploy.sh to publish changes to bbmap.org'']"

definition summary :: "state \<Rightarrow> pystr list" where
  "summary s = summary_lines (generated s) (skipped s)"

definition main :: "env \<Rightarrow> outcome" where
  "main e =
     and_then (print_all e initial banner)
       (\<lambda>s. if \<not> makedirs_ok e then Inl (OSError, s)
            else and_then (run_scripts e (shell_scripts e) s)
                   (\<lambda>s'. print_all e s' (summary s')))"


section \<open>Notions used to state the properties\<close>

text \<open>
  \<open>split_first label s\<close> cuts \<open>s\<close> at the first occurrence of \<open>label\<close>: the text
  before it and the text after it. \<open>first_where P s\<close> cuts \<open>s\<close> at the first position
  whose rest satisfies \<open>P\<close>.
\<close>

fun split_first :: "pystr \<Rightarrow> pystr \<Rightarrow> (pystr \<times> pystr) option" where
  "split_first label [] = (if label = [] then Some ([], []) else None)"
| "split_first label (c # cs) =
     (if prefix label (c # cs) then Some ([], drop (length label) (c # cs))
      else map_option (\<lambda>(a, b). (c # a, b)) (split_first label cs))"

fun first_where :: "(pystr \<Rightarrow> bool) \<Rightarrow> pystr \<Rightarrow> (pystr \<times> pystr) option" where
  "first_where P [] = (if P [] then Some ([], []) else None)"
| "first_where P (c # cs) =
     (if P (c # cs) then Some ([], c # cs)
      else map_option (\<lambda>(a, b). (c # a, b)) (first_where P cs))"

text \<open>
  Some occurrence of \<open>label\<close> in \<open>s\<close> has, at its end or later, a position where
  \<open>look\<close> holds.
\<close>

definition followed_by :: "pystr \<Rightarrow> (pystr \<Rightarrow> bool) \<Rightarrow> pystr \<Rightarrow> bool" where
  "followed_by label look s =
     any_suffix (\<lambda>t. prefix label t \<and> any_suffix look (drop (length label) t)) s"

text \<open>Every run of newlines becomes one space.\<close>

fun collapse_newline_runs :: "pystr \<Rightarrow> pystr" where
  "collapse_newline_runs [] = []"
| "collapse_newline_runs [c] = [if c = 10 then 32 else c]"
| "collapse_newline_runs (c # d # cs) =
     (if c = 10 \<and> d = 10 then collapse_newline_runs (d # cs)
      else (if c = 10 then 32 else c) # collapse_newline_runs (d # cs))"

text \<open>
  A tool name is ASCII when each of its characters is below 128; the case mapping of
  this theory is Python's on such names.
\<close>

definition ascii :: "pystr \<Rightarrow> bool" where
  "ascii s = list_all (\<lambda>c. c < 128) s"





section \<open>Example runs\<close>

text \<open>
  The script of the end-to-end scenario, and a run that finds only that script.
\<close>

definition scenario_bytes :: "char list" where
  "scenario_bytes =
     ''Description:\<newline>Compresses reads.\<newline>\<newline>Usage:\<newline>bbduk.sh in=reads.fq''"

definition scenario_env :: env where
  "scenario_env =
     \<lparr>makedirs_ok = True,
      shell_scripts = [join BBTOOLS_DIR (lit ''bbduk.sh'')],
      file_at = (\<lambda>p. Bytes scenario_bytes),
      version_file = Absent,
      writable = (\<lambda>p. True),
      printable = (\<lambda>text. True)\<rparr>"


definition authored_bytes :: "char list" where
  "authored_bytes =
     ''# Written by Jane Doe\<newline>Description: x\<newline>Usage: y\<newline>\<newline>''"






text \<open>The page of the scenario, and the page of the script that names its author.\<close>

definition scenario_html :: pystr where
  "scenario_html =
     generate_tool_page Absent (lit ''bbduk'') (Some (lit ''Compresses reads.'')) (Some [])
       (Some [])"

definition authored_html :: pystr where
  "authored_html =
     generate_tool_page Absent (lit ''tool'') (Some (lit ''x'')) (Some (lit ''y'')) (Some [])"

section \<open>Facts about the string functions\<close>

lemma any_suffix_iff: "any_suffix P s \<longleftrightarrow> (\<exists>a b. s = a @ b \<and> P b)"
proof (induction s)
  case Nil
  then show ?case by simp
next
  case (Cons c cs)
  show ?case
  proof
    assume "any_suffix P (c # cs)"
    then consider "P (c # cs)" | "any_suffix P cs" by auto
    then show "\<exists>a b. c # cs = a @ b \<and> P b"
    proof cases
      case 1
      then have "c # cs = [] @ (c # cs) \<and> P (c # cs)" by simp
      then show ?thesis by blast
    next
      case 2
      then obtain a b where "cs = a @ b" "P b" using Cons.IH by blast
      then have "c # cs = (c # a) @ b \<and> P b" by simp
      then show ?thesis by blast
    qed
  next
    assume "\<exists>a b. c # cs = a @ b \<and> P b"
    then obtain a b where ab: "c # cs = a @ b" "P b" by blast
    show "any_suffix P (c # cs)"
    proof (cases a)
      case Nil
      with ab have "P (c # cs)" by simp
      then show ?thesis by simp
    next
      case (Cons x xs)
      with ab have "cs = xs @ b" by simp
      with ab(2) Cons.IH show ?thesis by auto
    qed
  qed
qed

lemma any_suffix_append: "any_suffix P b \<Longrightarrow> any_suffix P (a @ b)"
  by (induction a) auto

lemma any_suffix_drop: "any_suffix P (drop n s) \<Longrightarrow> any_suffix P s"
proof -
  assume "any_suffix P (drop n s)"
  then have "any_suffix P (take n s @ drop n s)" by (rule any_suffix_append)
  then show ?thesis by simp
qed

lemma contains_iff: "contains n h \<longleftrightarrow> (\<exists>a b. h = a @ n @ b)"
  unfolding contains_def any_suffix_iff prefix_def by auto

lemma contains_mid: "contains n (a @ n @ b)"
  unfolding contains_iff by blast

lemma strip_prefix_Some: "strip_prefix l s = Some r \<longleftrightarrow> s = l @ r"
  by (induction l s rule: strip_prefix.induct) auto

lemma strip_prefix_None: "strip_prefix l s = None \<longleftrightarrow> \<not> prefix l s"
  by (induction l s rule: strip_prefix.induct) auto

lemma strip_prefix_append [simp]: "strip_prefix l (l @ r) = Some r"
  by (simp add: strip_prefix_Some)

lemma first_where_Some: "first_where P s = Some (a, b) \<Longrightarrow> s = a @ b \<and> P b"
  by (induction s arbitrary: a) (auto split: if_splits)

lemma split_first_Some: "split_first l s = Some (a, b) \<Longrightarrow> s = a @ l @ b"
  by (induction s arbitrary: a) (auto split: if_splits simp: prefix_def)

lemma strip_Cons_space: "is_space c \<Longrightarrow> strip (c # s) = strip s"
  by (simp add: strip_def)

lemma strip_Nil [simp]: "strip [] = []"
  by (simp add: strip_def)

section \<open>Facts about the matcher\<close>

lemma lazy_dotall_None: "lazy_dotall look s = None \<longleftrightarrow> \<not> any_suffix look s"
  by (induction s) auto

lemma lazy_dotall_first_where: "lazy_dotall look s = map_option fst (first_where look s)"
  by (induction s) (auto simp: option.map_comp comp_def split_def intro: option.map_cong)

lemma greedy_ws_None:
  "greedy_ws (lazy_dotall look) s = None \<longleftrightarrow> \<not> any_suffix look s"
proof (induction s)
  case Nil
  then show ?case by simp
next
  case (Cons c cs)
  show ?case
  proof (cases "is_space c")
    case False
    then show ?thesis using lazy_dotall_None [of look "c # cs"] by simp
  next
    case True
    show ?thesis
    proof (cases "greedy_ws (lazy_dotall look) cs")
      case None
      with True show ?thesis using lazy_dotall_None [of look "c # cs"] by simp
    next
      case (Some g)
      with Cons.IH have "any_suffix look cs" by auto
      with True Some show ?thesis by simp
    qed
  qed
qed

lemma re_search_None: "re_search m s = None \<longleftrightarrow> \<not> any_suffix (\<lambda>t. m t \<noteq> None) s"
  by (induction s) (auto split: option.splits)

lemma label_block_at_None:
  "label_block_at l look t = None \<longleftrightarrow> \<not> (prefix l t \<and> any_suffix look (drop (length l) t))"
proof (cases "strip_prefix l t")
  case None
  then have "\<not> prefix l t" by (simp add: strip_prefix_None)
  with None show ?thesis by (simp add: label_block_at_def)
next
  case (Some r)
  then have "t = l @ r" by (simp add: strip_prefix_Some)
  with Some show ?thesis by (simp add: label_block_at_def greedy_ws_None)
qed

lemma search_block_None:
  "re_search (label_block_at l look) s = None \<longleftrightarrow> \<not> followed_by l look s"
  by (simp add: re_search_None label_block_at_None followed_by_def)

lemma label_block_at_Some_prefix:
  "label_block_at l look t \<noteq> None \<Longrightarrow> prefix l t \<and> any_suffix look t"
proof -
  assume "label_block_at l look t \<noteq> None"
  then have "prefix l t" and "any_suffix look (drop (length l) t)"
    by (simp_all add: label_block_at_None)
  then show ?thesis by (simp add: any_suffix_drop)
qed

lemma no_later_match:
  assumes fresh: "a \<notin> set l'"
    and none: "\<not> any_suffix look r"
  shows "re_search (label_block_at (a # l') look) (l' @ r) = None"
proof -
  have "\<not> any_suffix (\<lambda>t. label_block_at (a # l') look t \<noteq> None) (l' @ r)"
  proof
    assume "any_suffix (\<lambda>t. label_block_at (a # l') look t \<noteq> None) (l' @ r)"
    then obtain u t where ut: "l' @ r = u @ t" and m: "label_block_at (a # l') look t \<noteq> None"
      unfolding any_suffix_iff by blast
    from m have pre: "prefix (a # l') t" and lk: "any_suffix look t"
      using label_block_at_Some_prefix by blast+
    from ut obtain w where w: "(l' = u @ w \<and> t = w @ r) \<or> (l' @ w = u \<and> r = w @ t)"
      by (auto simp: append_eq_append_conv2)
    then consider "l' = u @ w" "t = w @ r" "w \<noteq> []" | w where "r = w @ t"
      by (cases "w = []") auto
    then show False
    proof cases
      case 1
      then obtain x w' where "w = x # w'" by (cases w) auto
      with 1 pre have "x = a" "x \<in> set l'" by auto
      with fresh show False by simp
    next
      case 2
      with lk have "any_suffix look r" by (simp add: any_suffix_append)
      with none show False by simp
    qed
  qed
  then show ?thesis by (simp add: re_search_None)
qed

lemma search_label_block:
  assumes fresh: "a \<notin> set l'"
  shows "re_search (label_block_at (a # l') look) s =
         (case split_first (a # l') s of
            None \<Rightarrow> None
          | Some (before, after) \<Rightarrow> greedy_ws (lazy_dotall look) after)"
proof (induction s)
  case Nil
  then show ?case by (simp add: label_block_at_def)
next
  case (Cons c cs)
  show ?case
  proof (cases "prefix (a # l') (c # cs)")
    case True
    then obtain r where r: "c # cs = (a # l') @ r" by (auto simp: prefix_def)
    then have cs: "cs = l' @ r" and c: "c = a" by simp_all
    have at: "label_block_at (a # l') look (c # cs) = greedy_ws (lazy_dotall look) r"
      unfolding r by (simp add: label_block_at_def del: append.simps)
    have sp: "split_first (a # l') (c # cs) = Some ([], r)"
      using True r by simp
    show ?thesis
    proof (cases "greedy_ws (lazy_dotall look) r")
      case None
      then have "\<not> any_suffix look r" by (simp add: greedy_ws_None)
      with fresh have "re_search (label_block_at (a # l') look) cs = None"
        unfolding cs by (rule no_later_match)
      with at None sp show ?thesis by simp
    next
      case (Some g)
      with at sp show ?thesis by simp
    qed
  next
    case False
    then have "label_block_at (a # l') look (c # cs) = None"
      unfolding label_block_at_None by blast
    with False Cons.IH show ?thesis
      by (auto split: option.splits prod.splits)
  qed
qed

lemma greedy_desc_at_blank:
  assumes "is_space c" and "desc_look (c # cs)"
  shows "greedy_ws (lazy_dotall desc_look) cs = Some []"
proof -
  have P: "\<not> is_space 80" and U: "\<not> is_space 85" by (simp_all add: is_space_def)
  from assms P U obtain rest where cs: "cs = 10 # lit ''Usage:'' @ rest"
    by (auto simp: desc_look_def lit_def prefix_def)
  have look: "desc_look (lit ''Usage:'' @ rest)" by (simp add: desc_look_def)
  have "lit ''Usage:'' @ rest = 85 # (lit ''sage:'' @ rest)" by (simp add: lit_def)
  with look U have "greedy_ws (lazy_dotall desc_look) (lit ''Usage:'' @ rest) = Some []"
    by simp
  moreover have "is_space 10" by (simp add: is_space_def)
  ultimately show ?thesis unfolding cs by simp
qed

lemma greedy_desc_strip:
  "map_option strip (greedy_ws (lazy_dotall desc_look) r)
   = map_option strip (lazy_dotall desc_look r)"
proof (induction r)
  case Nil
  then show ?case by simp
next
  case (Cons c cs)
  show ?case
  proof (cases "is_space c")
    case False
    then show ?thesis by simp
  next
    case sp: True
    show ?thesis
    proof (cases "greedy_ws (lazy_dotall desc_look) cs")
      case None
      with sp show ?thesis by simp
    next
      case (Some g)
      show ?thesis
      proof (cases "desc_look (c # cs)")
        case True
        with sp have "greedy_ws (lazy_dotall desc_look) cs = Some []"
          by (rule greedy_desc_at_blank)
        with sp True show ?thesis by simp
      next
        case False
        from Some Cons.IH obtain b where b: "lazy_dotall desc_look cs = Some b" "strip b = strip g"
          by (cases "lazy_dotall desc_look cs") auto
        with sp False Some show ?thesis by (simp add: strip_Cons_space)
      qed
    qed
  qed
qed

lemma Description_fresh: "lit ''Description:'' = 68 # lit ''escription:'' \<and> 68 \<notin> set (lit ''escription:'')"
  by (simp add: lit_def)

lemma extract_description_eq:
  "extract_description content =
     (case split_first (lit ''Description:'') content of
        None \<Rightarrow> []
      | Some (before, after) \<Rightarrow>
          (case lazy_dotall desc_look after of
             None \<Rightarrow> []
           | Some b \<Rightarrow> replace_char 10 32 (strip b)))"
proof -
  obtain l' where l: "lit ''Description:'' = 68 # l'" "68 \<notin> set l'"
    using Description_fresh by blast
  have nil: "replace_char 10 32 [] = []" by (simp add: replace_char_def)
  show ?thesis
  proof (cases "split_first (lit ''Description:'') content")
    case None
    then show ?thesis
      using search_label_block [OF l(2), of desc_look content]
      by (simp add: extract_description_def desc_match_def l(1) nil)
  next
    case (Some p)
    obtain before after where p: "p = (before, after)" by (cases p)
    have m: "desc_match content = greedy_ws (lazy_dotall desc_look) after"
      using search_label_block [OF l(2), of desc_look content] Some p
      by (simp add: desc_match_def l(1))
    show ?thesis
      using greedy_desc_strip [of after] Some p
      by (cases "greedy_ws (lazy_dotall desc_look) after"; cases "lazy_dotall desc_look after")
         (auto simp: extract_description_def m nil)
  qed
qed

section \<open>The extraction patterns need their terminator\<close>

text \<open>
  Claim C10. When no \<open>Description:\<close> label of the text has, at its end or later, one of
  \<open>\n\nUsage:\<close>, \<open>Parameters:\<close> or \<open>Usage:\<close>, the description pattern does not match and
  the extracted description is empty, although the label may be present. When no
  \<open>Usage:\<close> label has, at its end or later, a blank line, \<open>\nParameters:\<close> or \<open>\nInput\<close>,
  the usage pattern does not match and the extracted usage is empty: each pattern needs
  its lookahead to hold somewhere.
\<close>

theorem terminator_required:
  "(\<not> followed_by (lit ''Description:'') desc_look content
      \<longrightarrow> desc_match content = None \<and> extract_description content = [])
   \<and> (\<not> followed_by (lit ''Usage:'') usage_look content
      \<longrightarrow> usage_match content = None \<and> extract_usage content = [])"
proof (intro conjI impI)
  assume "\<not> followed_by (lit ''Description:'') desc_look content"
  then show d: "desc_match content = None"
    by (simp add: desc_match_def search_block_None)
  then show "extract_description content = []"
    by (simp add: extract_description_def replace_char_def)
next
  assume "\<not> followed_by (lit ''Usage:'') usage_look content"
  then show u: "usage_match content = None"
    by (simp add: usage_match_def search_block_None)
  then show "extract_usage content = []"
    by (simp add: extract_usage_def)
qed

text \<open>
  The theorem at two texts: one whose \<open>Description:\<close> label comes after the only
  terminators, one whose usage runs to the end of the file.
\<close>

theorem terminator_required_witness:
  "contains (lit ''Description:'') (lit ''Usage: x\<newline>\<newline>Description: tail'')
   \<and> \<not> followed_by (lit ''Description:'') desc_look (lit ''Usage: x\<newline>\<newline>Description: tail'')
   \<and> extract_description (lit ''Usage: x\<newline>\<newline>Description: tail'') = []
   \<and> contains (lit ''Usage:'') (lit ''Usage:\<newline>bbduk.sh in=reads.fq'')
   \<and> \<not> followed_by (lit ''Usage:'') usage_look (lit ''Usage:\<newline>bbduk.sh in=reads.fq'')
   \<and> extract_usage (lit ''Usage:\<newline>bbduk.sh in=reads.fq'') = []"
proof -
  have d: "\<not> followed_by (lit ''Description:'') desc_look (lit ''Usage: x\<newline>\<newline>Description: tail'')"
    by (simp add: followed_by_def desc_look_def lit_def)
  have u: "\<not> followed_by (lit ''Usage:'') usage_look (lit ''Usage:\<newline>bbduk.sh in=reads.fq'')"
    by (simp add: followed_by_def usage_look_def lit_def)
  have c1: "contains (lit ''Description:'') (lit ''Usage: x\<newline>\<newline>Description: tail'')"
    by (simp add: contains_def lit_def)
  have c2: "contains (lit ''Usage:'') (lit ''Usage:\<newline>bbduk.sh in=reads.fq'')"
    by (simp add: contains_def lit_def)
  from d u c1 c2
    terminator_required [of "lit ''Usage: x\<newline>\<newline>Description: tail''"]
    terminator_required [of "lit ''Usage:\<newline>bbduk.sh in=reads.fq''"]
  show ?thesis by blast
qed

section \<open>The description of a well-formed block\<close>

lemma strip_ends: "strip s = [] \<or> (\<not> is_space (hd (strip s)) \<and> \<not> is_space (last (strip s)))"
proof (cases "strip s = []")
  case True
  then show ?thesis by simp
next
  case False
  define t where "t = dropWhile is_space s"
  define u where "u = dropWhile is_space (rev t)"
  have su: "strip s = rev u" by (simp add: strip_def t_def u_def)
  with False have u: "u \<noteq> []" by simp
  then have hu: "\<not> is_space (hd u)" unfolding u_def by (rule hd_dropWhile)
  have "rev t = takeWhile is_space (rev t) @ u" by (simp add: u_def)
  with u have "last (rev t) = last u" by (metis last_appendR)
  moreover from u have "t \<noteq> []" by (auto simp: u_def)
  ultimately have lu: "last u = hd t" by (simp add: last_rev)
  from \<open>t \<noteq> []\<close> have "\<not> is_space (hd t)" unfolding t_def by (rule hd_dropWhile)
  with lu hu u show ?thesis by (simp add: su hd_rev last_rev)
qed

lemma replace_newline_ends:
  assumes "d = [] \<or> (\<not> is_space (hd d) \<and> \<not> is_space (last d))"
  shows "replace_char 10 32 d = [] \<or>
         (\<not> is_space (hd (replace_char 10 32 d)) \<and> \<not> is_space (last (replace_char 10 32 d)))"
proof (cases "d = []")
  case True
  then show ?thesis by (simp add: replace_char_def)
next
  case False
  have sp: "is_space 10" by (simp add: is_space_def)
  from False assms have "hd d \<noteq> 10" "last d \<noteq> 10" using sp by auto
  with False assms show ?thesis
    by (simp add: replace_char_def hd_map last_map)
qed

lemma replace_newline_none: "10 \<notin> set (replace_char 10 32 d)"
  by (auto simp: replace_char_def)

text \<open>
  Claim C3, as the code has it. Let the text after the first \<open>Description:\<close> label be
  \<open>after\<close>, and let \<open>X\<close> be the part of \<open>after\<close> before the first position where
  \<open>\n\nUsage:\<close>, \<open>Parameters:\<close> or \<open>Usage:\<close> starts. Then the extracted description is
  \<open>X\<close> without its leading and trailing whitespace and with each newline replaced by
  one space: it holds no newline, and it neither starts nor ends with whitespace. A run
  of \<open>n\<close> newlines inside \<open>X\<close> becomes \<open>n\<close> spaces.
\<close>

theorem description_of_block:
  assumes "split_first (lit ''Description:'') content = Some (before, after)"
    and "first_where desc_look after = Some (X, rest)"
  shows "extract_description content = replace_char 10 32 (strip X)
         \<and> 10 \<notin> set (extract_description content)
         \<and> (extract_description content = []
            \<or> (\<not> is_space (hd (extract_description content))
               \<and> \<not> is_space (last (extract_description content))))"
proof -
  from assms(2) have "lazy_dotall desc_look after = Some X"
    by (simp add: lazy_dotall_first_where)
  with assms(1) have eq: "extract_description content = replace_char 10 32 (strip X)"
    by (simp add: extract_description_eq)
  show ?thesis
    unfolding eq
    using replace_newline_none [of "strip X"] replace_newline_ends [OF strip_ends, of X]
    by blast
qed

text \<open>The theorem at a script with a comment line, a two-line description and a usage.\<close>

theorem description_of_block_witness:
  "split_first (lit ''Description:'') (lit ''# tool\<newline>Description:  Trims\<newline>reads. \<newline>\<newline>Usage: t.sh'')
     = Some (lit ''# tool\<newline>'', lit ''  Trims\<newline>reads. \<newline>\<newline>Usage: t.sh'')
   \<and> first_where desc_look (lit ''  Trims\<newline>reads. \<newline>\<newline>Usage: t.sh'')
     = Some (lit ''  Trims\<newline>reads. '', lit ''\<newline>\<newline>Usage: t.sh'')
   \<and> extract_description (lit ''# tool\<newline>Description:  Trims\<newline>reads. \<newline>\<newline>Usage: t.sh'')
     = lit ''Trims reads.''"
proof -
  have a: "split_first (lit ''Description:'') (lit ''# tool\<newline>Description:  Trims\<newline>reads. \<newline>\<newline>Usage: t.sh'')
     = Some (lit ''# tool\<newline>'', lit ''  Trims\<newline>reads. \<newline>\<newline>Usage: t.sh'')"
    by (simp add: lit_def)
  have b: "first_where desc_look (lit ''  Trims\<newline>reads. \<newline>\<newline>Usage: t.sh'')
     = Some (lit ''  Trims\<newline>reads. '', lit ''\<newline>\<newline>Usage: t.sh'')"
    by (simp add: lit_def desc_look_def)
  have c: "replace_char 10 32 (strip (lit ''  Trims\<newline>reads. '')) = lit ''Trims reads.''"
    by (simp add: lit_def strip_def replace_char_def is_space_def)
  from description_of_block [OF a b] a b c show ?thesis by simp
qed

text \<open>
  Claim C3 as stated fails: in \<open>Description: a\n\nb\nUsage: x\n\n\<close> the block is
  \<open>a\n\nb\<close>, whose run of two newlines collapses to \<open>a b\<close>; the extractor returns
  \<open>a  b\<close>, with two spaces.
\<close>

theorem newline_runs_counterexample:
  "split_first (lit ''Description:'') (lit ''Description: a\<newline>\<newline>b\<newline>Usage: x\<newline>\<newline>'')
     = Some ([], lit '' a\<newline>\<newline>b\<newline>Usage: x\<newline>\<newline>'')
   \<and> first_where desc_look (lit '' a\<newline>\<newline>b\<newline>Usage: x\<newline>\<newline>'')
     = Some (lit '' a\<newline>\<newline>b\<newline>'', lit ''Usage: x\<newline>\<newline>'')
   \<and> collapse_newline_runs (strip (lit '' a\<newline>\<newline>b\<newline>'')) = lit ''a b''
   \<and> extract_description (lit ''Description: a\<newline>\<newline>b\<newline>Usage: x\<newline>\<newline>'') = lit ''a  b''
   \<and> extract_description (lit ''Description: a\<newline>\<newline>b\<newline>Usage: x\<newline>\<newline>'')
      \<noteq> collapse_newline_runs (strip (lit '' a\<newline>\<newline>b\<newline>''))"
  by (simp add: lit_def desc_look_def strip_def is_space_def extract_description_def
      desc_match_def label_block_at_def replace_char_def)

section \<open>The rendered page\<close>

lemma lit_append: "lit (a @ b) = lit a @ lit b"
  by (simp add: lit_def)

lemma page_head_ends: "\<exists>a. page_head = a @ lit ''<title>''"
proof -
  have "suffix (lit ''<title>'') page_head"
    by (simp add: suffix_to_prefix page_head_def lit_def)
  then show ?thesis by (auto simp: suffix_def)
qed

lemma page_meta_begins: "\<exists>b. page_meta = lit '' - BBTools</title>'' @ b"
proof -
  have "prefix (lit '' - BBTools</title>'') page_meta"
    by (simp add: page_meta_def lit_def)
  then show ?thesis by (auto simp: prefix_def)
qed

lemma page_author_ends: "\<exists>a. page_author = a @ lit ''<strong>Version:</strong> BBTools v''"
proof -
  have "suffix (lit ''<strong>Version:</strong> BBTools v'') page_author"
    by (simp add: suffix_to_prefix page_author_def lit_def)
  then show ?thesis by (auto simp: suffix_def)
qed

lemma page_examples_begins: "\<exists>b. page_examples = lit ''\<newline>            </div>'' @ b"
proof -
  have "prefix (lit ''\<newline>            </div>'') page_examples"
    by (simp add: page_examples_def lit_def)
  then show ?thesis by (auto simp: prefix_def)
qed

lemma contains_between:
  assumes "h = p @ (a @ n1) @ x @ (n2 @ b) @ q"
  shows "contains (n1 @ x @ n2) h"
proof -
  have "h = (p @ a) @ (n1 @ x @ n2) @ (b @ q)" using assms by simp
  then show ?thesis unfolding contains_iff by blast
qed

lemma page_has_title:
  "contains (lit ''<title>'' @ display_name tool_name @ lit '' - BBTools</title>'')
     (generate_tool_page sc tool_name description usage last_modified)"
proof -
  obtain a where a: "page_head = a @ lit ''<title>''" using page_head_ends by blast
  obtain b where b: "page_meta = lit '' - BBTools</title>'' @ b" using page_meta_begins by blast
  show ?thesis
    unfolding generate_tool_page_def Let_def a b
    by (rule contains_between [where p = "[]"]) simp
qed

lemma page_has_version:
  "contains (lit ''<strong>Version:</strong> BBTools v'' @ read_version sc
             @ lit ''\<newline>            </div>'')
     (generate_tool_page sc tool_name description usage last_modified)"
proof -
  obtain a where a: "page_author = a @ lit ''<strong>Version:</strong> BBTools v''"
    using page_author_ends by blast
  obtain b where b: "page_examples = lit ''\<newline>            </div>'' @ b"
    using page_examples_begins by blast
  show ?thesis
    unfolding generate_tool_page_def Let_def a b
    by (rule contains_between
        [where p = "page_head @ display_name tool_name @ page_meta
           @ (if truthy description then take 155 (the description)
              else display_name tool_name @ lit '' - BBTools bioinformatics tool'')
           @ page_nav @ tool_name @ page_header @ display_name tool_name
           @ page_h1 @ or_else description (lit ''A tool in the BBTools suite'')
           @ page_usage @ or_else usage (tool_name @ lit ''.sh [parameters]'')
           @ page_about
           @ or_else description
               (display_name tool_name @ lit '' is part of the BBTools suite of bioinformatics tools.'')
           @ page_info @ or_else last_modified (lit ''See source'')"]) simp
qed

lemma begins_BB:
  "prefix (lit ''BB'') (replace_char 95 32 (upper tool_name))
   \<longleftrightarrow> (\<exists>c d r. tool_name = c # d # r \<and> (c = 66 \<or> c = 98) \<and> (d = 66 \<or> d = 98))"
proof (cases tool_name)
  case Nil
  then show ?thesis by (simp add: lit_def upper_def replace_char_def)
next
  case (Cons c t)
  note c = this
  show ?thesis
  proof (cases t)
    case Nil
    with c show ?thesis by (simp add: lit_def upper_def replace_char_def)
  next
    case (Cons d r)
    have up: "\<And>x. (if to_upper x = 95 then 32 else to_upper x) = 66 \<longleftrightarrow> x = 66 \<or> x = 98"
      by (auto simp: to_upper_def is_lower_def)
    from c Cons show ?thesis
      by (simp add: lit_def upper_def replace_char_def up)
  qed
qed

lemma title_from_length: "length (title_from b s) = length s"
  by (induction s arbitrary: b) simp_all

lemma title_from_no_underscore: "95 \<notin> set s \<Longrightarrow> 95 \<notin> set (title_from b s)"
  by (induction s arbitrary: b) (auto simp: to_upper_def to_lower_def is_lower_def is_upper_def)

lemma upper_replaced_no_underscore: "95 \<notin> set (replace_char 95 32 (upper s))"
  by (auto simp: replace_char_def)

lemma display_name_length: "length (display_name s) = length s"
proof (cases "prefix (lit ''BB'') (replace_char 95 32 (upper s))")
  case True
  then have "2 \<le> length (replace_char 95 32 (upper s))"
    by (auto simp: prefix_def lit_def)
  with True show ?thesis
    by (simp add: display_name_def Let_def title_def title_from_length lit_def
        replace_char_def upper_def)
next
  case False
  then show ?thesis by (simp add: display_name_def Let_def replace_char_def upper_def)
qed

lemma display_name_no_underscore: "95 \<notin> set (display_name s)"
proof (cases "prefix (lit ''BB'') (replace_char 95 32 (upper s))")
  case True
  have "95 \<notin> set (drop 2 (replace_char 95 32 (upper s)))"
    using upper_replaced_no_underscore [of s] by (auto dest: in_set_dropD)
  then have "95 \<notin> set (title (drop 2 (replace_char 95 32 (upper s))))"
    unfolding title_def by (rule title_from_no_underscore)
  with True show ?thesis by (simp add: display_name_def Let_def lit_def)
next
  case False
  then show ?thesis
    using upper_replaced_no_underscore [of s] by (simp add: display_name_def Let_def)
qed

text \<open>
  Claim C2, as the code has it, for tool names of ASCII characters (on other names the
  case mapping of Python is not the one of this theory, and nothing is stated). The
  page contains \<open><title>DisplayName - BBTools</title>\<close>, where the display name is the
  tool name in upper case with underscores replaced by spaces and, when that begins
  with \<open>BB\<close> (the tool name begins with two letters \<open>b\<close> or \<open>B\<close>), \<open>BB\<close> followed by the
  title-cased remainder. It is as long as the tool name and holds no underscore. So
  \<open>bbduk\<close> gives \<open>BBDuk\<close>, and \<open>reformat\<close>, which does not begin with \<open>BB\<close>, gives
  \<open>REFORMAT\<close>.
\<close>

theorem title_display_name:
  assumes "ascii tool_name"
  shows "contains (lit ''<title>'' @ display_name tool_name @ lit '' - BBTools</title>'')
     (generate_tool_page sc tool_name description usage last_modified)
   \<and> display_name tool_name =
       (if prefix (lit ''BB'') (replace_char 95 32 (upper tool_name))
        then lit ''BB'' @ title (drop 2 (replace_char 95 32 (upper tool_name)))
        else replace_char 95 32 (upper tool_name))
   \<and> (prefix (lit ''BB'') (replace_char 95 32 (upper tool_name))
        \<longleftrightarrow> (\<exists>c d r. tool_name = c # d # r \<and> (c = 66 \<or> c = 98) \<and> (d = 66 \<or> d = 98)))
   \<and> length (display_name tool_name) = length tool_name
   \<and> 95 \<notin> set (display_name tool_name)
   \<and> display_name (lit ''bbduk'') = lit ''BBDuk''
   \<and> display_name (lit ''reformat'') = lit ''REFORMAT''"
proof (intro conjI)
  show "contains (lit ''<title>'' @ display_name tool_name @ lit '' - BBTools</title>'')
     (generate_tool_page sc tool_name description usage last_modified)"
    by (rule page_has_title)
  show "display_name tool_name =
       (if prefix (lit ''BB'') (replace_char 95 32 (upper tool_name))
        then lit ''BB'' @ title (drop 2 (replace_char 95 32 (upper tool_name)))
        else replace_char 95 32 (upper tool_name))"
    by (simp add: display_name_def Let_def)
  show "prefix (lit ''BB'') (replace_char 95 32 (upper tool_name))
        \<longleftrightarrow> (\<exists>c d r. tool_name = c # d # r \<and> (c = 66 \<or> c = 98) \<and> (d = 66 \<or> d = 98))"
    by (rule begins_BB)
  show "length (display_name tool_name) = length tool_name"
    by (rule display_name_length)
  show "95 \<notin> set (display_name tool_name)"
    by (rule display_name_no_underscore)
  show "display_name (lit ''bbduk'') = lit ''BBDuk''"
    by (simp add: display_name_def lit_def upper_def to_upper_def to_lower_def is_lower_def
        is_upper_def is_cased_def replace_char_def title_def)
  show "display_name (lit ''reformat'') = lit ''REFORMAT''"
    by (simp add: display_name_def lit_def upper_def to_upper_def is_lower_def replace_char_def)
qed

text \<open>The theorem at the ASCII tool name \<open>bb_merge\<close>, whose display name is \<open>BB Merge\<close>.\<close>

theorem title_display_name_witness:
  "ascii (lit ''bb_merge'')
   \<and> display_name (lit ''bb_merge'') = lit ''BB Merge''
   \<and> contains (lit ''<title>BB Merge - BBTools</title>'')
        (generate_tool_page Absent (lit ''bb_merge'') None None None)"
proof -
  have a: "ascii (lit ''bb_merge'')" by (simp add: ascii_def lit_def)
  have d: "display_name (lit ''bb_merge'') = lit ''BB Merge''"
    by (simp add: display_name_def lit_def upper_def to_upper_def to_lower_def is_lower_def
        is_upper_def is_cased_def replace_char_def title_def)
  have n: "lit ''<title>'' @ lit ''BB Merge'' @ lit '' - BBTools</title>''
           = lit ''<title>BB Merge - BBTools</title>''"
    by (simp add: lit_def)
  from title_display_name [OF a, of Absent None None None]
  have "contains (lit ''<title>'' @ display_name (lit ''bb_merge'') @ lit '' - BBTools</title>'')
     (generate_tool_page Absent (lit ''bb_merge'') None None None)"
    by blast
  with a d n show ?thesis by simp
qed

text \<open>Claim C2 as stated fails at \<open>reformat\<close>: the display name is not \<open>Reformat\<close>.\<close>

theorem reformat_counterexample:
  "display_name (lit ''reformat'') = lit ''REFORMAT''
   \<and> display_name (lit ''reformat'') \<noteq> lit ''Reformat''"
  by (simp add: display_name_def lit_def upper_def to_upper_def is_lower_def replace_char_def)

text \<open>
  Claim C5, as the code has it. The renderer reads the version file, so its page is a
  function of its four arguments and of the state of that file; the file matters
  through the version string alone. Two calls with the same four arguments give the
  same page exactly when the version file yields the same version string in both.
\<close>

theorem page_depends_on_version:
  "generate_tool_page sc tool_name description usage last_modified
     = generate_tool_page sc' tool_name description usage last_modified
   \<longleftrightarrow> read_version sc = read_version sc'"
  by (simp add: generate_tool_page_def Let_def)

text \<open>The theorem at a missing and at a malformed version file: the same page.\<close>

theorem page_depends_on_version_witness:
  "read_version Absent = read_version Malformed
   \<and> generate_tool_page Absent (lit ''bbduk'') (Some (lit ''Compresses reads.'')) (Some []) (Some [])
     = generate_tool_page Malformed (lit ''bbduk'') (Some (lit ''Compresses reads.'')) (Some []) (Some [])"
proof -
  have "read_version Absent = read_version Malformed" by (simp add: read_version_def)
  with page_depends_on_version [of Absent "lit ''bbduk''" "Some (lit ''Compresses reads.'')"
      "Some []" "Some []" Malformed]
  show ?thesis by blast
qed

text \<open>
  Claim C5 as stated fails: with the same four arguments, the page rendered without a
  version file differs from the page rendered with a version file that says \<open>40.00\<close>.
\<close>

theorem sidecar_counterexample:
  "generate_tool_page Absent (lit ''bbduk'') (Some (lit ''Compresses reads.'')) (Some []) (Some [])
   \<noteq> generate_tool_page (Parsed (Dict [lit ''version'' \<mapsto> Str (lit ''40.00'')]))
        (lit ''bbduk'') (Some (lit ''Compresses reads.'')) (Some []) (Some [])"
  by (simp add: generate_tool_page_def Let_def read_version_def default_version_def py_str_def
      lit_def)

text \<open>
  Claim C9. Whatever the state of the version file, the renderer returns a page, and
  the page contains the version line with the version string read. That string is the
  default \<open>39.34\<close> when the file is missing, cannot be read, is not JSON, is not a JSON
  object, or is an object without the key \<open>version\<close>; it is the value of that key when
  the key is present.
\<close>

theorem version_fallback:
  "contains (lit ''<strong>Version:</strong> BBTools v'' @ read_version sc
             @ lit ''\<newline>            </div>'')
     (generate_tool_page sc tool_name description usage last_modified)
   \<and> read_version Absent = lit ''39.34''
   \<and> read_version Unreadable = lit ''39.34''
   \<and> read_version Malformed = lit ''39.34''
   \<and> read_version (Parsed NotDict) = lit ''39.34''
   \<and> (data (lit ''version'') = None \<longrightarrow> read_version (Parsed (Dict data)) = lit ''39.34'')
   \<and> (data (lit ''version'') = Some (Str s) \<longrightarrow> read_version (Parsed (Dict data)) = s)
   \<and> (data (lit ''version'') = Some (NonStr r) \<longrightarrow> read_version (Parsed (Dict data)) = r)"
  using page_has_version [of sc tool_name description usage last_modified]
  by (simp add: read_version_def default_version_def py_str_def)

text \<open>
  The theorem at an object without the key, at one with the string \<open>40.01\<close> and at one
  with the number \<open>40\<close>.
\<close>

theorem version_fallback_witness:
  "Map.empty (lit ''version'') = None
   \<and> read_version (Parsed (Dict Map.empty)) = lit ''39.34''
   \<and> [lit ''version'' \<mapsto> Str (lit ''40.01'')] (lit ''version'') = Some (Str (lit ''40.01''))
   \<and> read_version (Parsed (Dict [lit ''version'' \<mapsto> Str (lit ''40.01'')])) = lit ''40.01''
   \<and> [lit ''version'' \<mapsto> NonStr (lit ''40'')] (lit ''version'') = Some (NonStr (lit ''40''))
   \<and> read_version (Parsed (Dict [lit ''version'' \<mapsto> NonStr (lit ''40'')])) = lit ''40''
   \<and> contains (lit ''<strong>Version:</strong> BBTools v'' @ lit ''39.34'' @ lit ''\<newline>            </div>'')
        (generate_tool_page (Parsed (Dict Map.empty)) (lit ''bbduk'') (Some (lit ''Compresses reads.'')) (Some []) (Some []))"
proof -
  note a = version_fallback [of "Parsed (Dict Map.empty)" "lit ''bbduk''"
      "Some (lit ''Compresses reads.'')" "Some []" "Some []" Map.empty]
  note b = version_fallback [of Absent "[]" None None None
      "[lit ''version'' \<mapsto> Str (lit ''40.01'')]" "lit ''40.01''"]
  note c = version_fallback [of Absent "[]" None None None
      "[lit ''version'' \<mapsto> NonStr (lit ''40'')]" _ "lit ''40''"]
  from a have r: "read_version (Parsed (Dict Map.empty)) = lit ''39.34''" by simp
  from a have "contains (lit ''<strong>Version:</strong> BBTools v''
        @ read_version (Parsed (Dict Map.empty)) @ lit ''\<newline>            </div>'')
     (generate_tool_page (Parsed (Dict Map.empty)) (lit ''bbduk'')
        (Some (lit ''Compresses reads.'')) (Some []) (Some []))"
    by blast
  then have k: "contains (lit ''<strong>Version:</strong> BBTools v''
        @ lit ''39.34'' @ lit ''\<newline>            </div>'')
     (generate_tool_page (Parsed (Dict Map.empty)) (lit ''bbduk'')
        (Some (lit ''Compresses reads.'')) (Some []) (Some []))"
    unfolding r .
  from b have s: "read_version (Parsed (Dict [lit ''version'' \<mapsto> Str (lit ''40.01'')])) = lit ''40.01''"
    by simp
  from c have n: "read_version (Parsed (Dict [lit ''version'' \<mapsto> NonStr (lit ''40'')])) = lit ''40''"
    by simp
  from r k s n show ?thesis by simp
qed

section \<open>Reading the example scripts\<close>

lemma utf8_ascii:
  "list_all (\<lambda>c. (of_char c :: nat) < 128) bs \<Longrightarrow> utf8_decode_ignore bs = lit bs"
  by (induction bs) (simp_all add: lit_def Let_def)


lemma universal_newlines_id: "13 \<notin> set s \<Longrightarrow> universal_newlines s = s"
  by (induction s rule: universal_newlines.induct) auto

lemma read_text_ascii:
  assumes "list_all (\<lambda>c. (of_char c :: nat) < 128) bs" and "13 \<notin> set (lit bs)"
  shows "read_text (Bytes bs) = Some (lit bs)"
  using assms by (simp add: read_text_def utf8_ascii universal_newlines_id)

lemma scenario_text: "read_text (Bytes scenario_bytes) = Some (lit scenario_bytes)"
  by (rule read_text_ascii) (simp_all add: scenario_bytes_def lit_def)

lemma scenario_fields:
  "extract_description (lit scenario_bytes) = lit ''Compresses reads.''"
  "extract_usage (lit scenario_bytes) = []"
  "extract_last_modified (lit scenario_bytes) = []"
  by (simp_all add: scenario_bytes_def lit_def extract_description_def extract_usage_def
      extract_last_modified_def desc_match_def usage_match_def modified_match_def
      label_block_at_def label_line_at_def desc_look_def usage_look_def is_space_def
      strip_def replace_char_def)

lemma scenario_info:
  "extract_tool_info (Bytes scenario_bytes) = (Some (lit ''Compresses reads.''), Some [], Some [])"
  by (simp add: extract_tool_info_def scenario_text scenario_fields Let_def)




lemma example_tool_names:
  "tool_name_of (join BBTOOLS_DIR (lit ''gone.sh'')) = lit ''gone''"
  "tool_name_of (join BBTOOLS_DIR (lit ''blank.sh'')) = lit ''blank''"
  "tool_name_of (join BBTOOLS_DIR (lit ''calcmem.sh'')) = lit ''calcmem''"
  "tool_name_of (join BBTOOLS_DIR (lit ''latin1.sh'')) = lit ''latin1''"
  "tool_name_of (join BBTOOLS_DIR (lit ''bbduk.sh'')) = lit ''bbduk''"
  by (simp_all add: tool_name_of_def basename_def join_def BBTOOLS_DIR_def lit_def remove_all_def)

lemma example_excluded:
  "lit ''gone'' \<notin> set excluded" "lit ''blank'' \<notin> set excluded"
  "lit ''calcmem'' \<in> set excluded" "lit ''latin1'' \<notin> set excluded"
  "lit ''bbduk'' \<notin> set excluded"
  by (simp_all add: excluded_def lit_def)




section \<open>Printing\<close>

lemma and_then_Inr [simp]: "and_then (Inr s) f = f s"
  by (simp add: and_then_def)

lemma and_then_Inl [simp]: "and_then (Inl x) f = Inl x"
  by (simp add: and_then_def)

lemma print_all_ok:
  "list_all (printable e) ls \<Longrightarrow> print_all e s ls = Inr (s\<lparr>stdout := stdout s @ ls\<rparr>)"
  by (induction ls arbitrary: s) (simp_all add: py_print_def)


lemma banner_printed: "list_all (printable e) banner \<Longrightarrow> print_all e initial banner = Inr start"
  by (simp add: print_all_ok start_def initial_def)



section \<open>One script of the loop\<close>



lemma process_page:
  assumes "tool_name_of p \<notin> set excluded"
    and "extract_tool_info (file_at e p) = (d, u, m)"
    and "truthy d \<or> truthy u"
  shows "process_script e s p =
         (if \<not> writable e (output_file_of (tool_name_of p)) then Inl (OSError, s)
          else if printable e (generated_line (tool_name_of p))
          then Inr (s\<lparr>files := files s @ [(output_file_of (tool_name_of p),
                        generate_tool_page (version_file e) (tool_name_of p) d u m)],
                      stdout := stdout s @ [generated_line (tool_name_of p)],
                      generated := generated s + 1\<rparr>)
          else Inl (UnicodeEncodeError,
                    s\<lparr>files := files s @ [(output_file_of (tool_name_of p),
                        generate_tool_page (version_file e) (tool_name_of p) d u m)]\<rparr>))"
  using assms by (simp add: process_script_def Let_def py_print_def)






section \<open>Scripts that cannot be read\<close>





section \<open>The whole run\<close>
















section \<open>The end-to-end scenario and the author\<close>

lemma not_contains_by_char:
  assumes "x \<in> set n" and "list_all (\<lambda>c. c \<noteq> x) h"
  shows "\<not> contains n h"
proof
  assume "contains n h"
  then obtain a b where "h = a @ n @ b" unfolding contains_iff by blast
  with assms(1) have "x \<in> set h" by simp
  with assms(2) show False by (auto simp: list_all_iff)
qed

lemma contains_inside: "contains n seg \<Longrightarrow> contains n (p @ seg @ q)"
proof -
  assume "contains n seg"
  then obtain a b where "seg = a @ n @ b" unfolding contains_iff by blast
  then have "p @ seg @ q = (p @ a) @ n @ (b @ q)" by simp
  then show ?thesis unfolding contains_iff by blast
qed

lemma template_without_q:
  "list_all (\<lambda>c. c \<noteq> 113) page_head" "list_all (\<lambda>c. c \<noteq> 113) page_meta"
  "list_all (\<lambda>c. c \<noteq> 113) page_nav" "list_all (\<lambda>c. c \<noteq> 113) page_header"
  "list_all (\<lambda>c. c \<noteq> 113) page_h1" "list_all (\<lambda>c. c \<noteq> 113) page_usage"
  "list_all (\<lambda>c. c \<noteq> 113) page_about" "list_all (\<lambda>c. c \<noteq> 113) page_info"
  "list_all (\<lambda>c. c \<noteq> 113) page_author" "list_all (\<lambda>c. c \<noteq> 113) page_examples"
  "list_all (\<lambda>c. c \<noteq> 113) page_tail"
  by (simp_all add: page_head_def page_meta_def page_nav_def page_nav_a_def page_nav_b_def
      page_header_def page_h1_def page_usage_def page_about_def page_info_def page_author_def
      page_examples_def page_tail_def lit_def)

lemma template_without_J:
  "list_all (\<lambda>c. c \<noteq> 74) page_head" "list_all (\<lambda>c. c \<noteq> 74) page_meta"
  "list_all (\<lambda>c. c \<noteq> 74) page_nav" "list_all (\<lambda>c. c \<noteq> 74) page_header"
  "list_all (\<lambda>c. c \<noteq> 74) page_h1" "list_all (\<lambda>c. c \<noteq> 74) page_usage"
  "list_all (\<lambda>c. c \<noteq> 74) page_about" "list_all (\<lambda>c. c \<noteq> 74) page_info"
  "list_all (\<lambda>c. c \<noteq> 74) page_author" "list_all (\<lambda>c. c \<noteq> 74) page_examples"
  "list_all (\<lambda>c. c \<noteq> 74) page_tail"
  by (simp_all add: page_head_def page_meta_def page_nav_def page_nav_a_def page_nav_b_def
      page_header_def page_h1_def page_usage_def page_about_def page_info_def page_author_def
      page_examples_def page_tail_def lit_def)

lemma display_bbduk: "display_name (lit ''bbduk'') = lit ''BBDuk''"
  by (simp add: display_name_def lit_def upper_def to_upper_def to_lower_def is_lower_def
      is_upper_def is_cased_def replace_char_def title_def)

lemma display_tool: "display_name (lit ''tool'') = lit ''TOOL''"
  by (simp add: display_name_def lit_def upper_def to_upper_def is_lower_def replace_char_def)

lemma scenario_html_eq:
  "scenario_html =
     page_head @ lit ''BBDuk'' @ page_meta @ lit ''Compresses reads.'' @ page_nav @ lit ''bbduk''
     @ page_header @ lit ''BBDuk'' @ page_h1 @ lit ''Compresses reads.''
     @ page_usage @ lit ''bbduk.sh [parameters]'' @ page_about @ lit ''Compresses reads.''
     @ page_info @ lit ''See source'' @ page_author @ lit ''39.34''
     @ page_examples @ lit ''bbduk'' @ page_tail"
  unfolding scenario_html_def generate_tool_page_def Let_def display_bbduk
  by (simp add: truthy_def or_else_def read_version_def default_version_def lit_def)

lemma authored_html_eq:
  "authored_html =
     page_head @ lit ''TOOL'' @ page_meta @ lit ''x'' @ page_nav @ lit ''tool''
     @ page_header @ lit ''TOOL'' @ page_h1 @ lit ''x''
     @ page_usage @ lit ''y'' @ page_about @ lit ''x''
     @ page_info @ lit ''See source'' @ page_author @ lit ''39.34''
     @ page_examples @ lit ''tool'' @ page_tail"
  unfolding authored_html_def generate_tool_page_def Let_def display_tool
  by (simp add: truthy_def or_else_def read_version_def default_version_def lit_def)

lemma scenario_html_without_q: "list_all (\<lambda>c. c \<noteq> 113) scenario_html"
  unfolding scenario_html_eq by (simp add: template_without_q) (simp add: lit_def)

lemma authored_html_without_J: "list_all (\<lambda>c. c \<noteq> 74) authored_html"
  unfolding authored_html_eq by (simp add: template_without_J) (simp add: lit_def)

lemma page_h1_ends: "\<exists>a. page_h1 = a @ lit ''<p>''"
proof -
  have "suffix (lit ''<p>'') page_h1"
    by (simp add: suffix_to_prefix page_h1_def lit_def)
  then show ?thesis by (auto simp: suffix_def)
qed

lemma page_usage_ends:
  \<open>\<exists>b a. page_usage = lit ''</p>'' @ b
          \<and> page_usage = a @ lit ''<div class="usage-box">\<newline>                ''\<close>
proof -
  have "prefix (lit ''</p>'') page_usage"
    by (simp add: page_usage_def lit_def)
  moreover have \<open>suffix (lit ''<div class="usage-box">\<newline>                '') page_usage\<close>
    by (simp add: suffix_to_prefix page_usage_def lit_def)
  ultimately show ?thesis by (auto simp: suffix_def prefix_def)
qed

lemma page_about_begins: "\<exists>b. page_about = lit ''\<newline>            </div>'' @ b"
proof -
  have "prefix (lit ''\<newline>            </div>'') page_about"
    by (simp add: page_about_def lit_def)
  then show ?thesis by (auto simp: prefix_def)
qed

lemma page_author_names: "contains (lit ''<strong>Author:</strong> Brian Bushnell<br>'') page_author"
  by (simp add: contains_def page_author_def lit_def)

lemma scenario_main:
  "main scenario_env =
     Inr (start\<lparr>files := [(join TOOLS_DIR (lit ''bbduk.html''), scenario_html)],
                stdout := stdout start @ [lit ''  Generated: bbduk.html'']
                  @ [lit ''\<newline>Summary:'', lit ''  Generated: 1 pages'', lit ''  Skipped: 0 scripts'',
                     lit ''\<newline>Tool pages created in: '' @ TOOLS_DIR,
                     lit ''\<newline>Run deploy.sh to publish changes to bbmap.org''],
                generated := 1\<rparr>)"
proof -
  have t: "truthy (Some (lit ''Compresses reads.'')) \<or> truthy (Some [])"
    by (simp add: truthy_def lit_def)
  have n: "generated_line (lit ''bbduk'') = lit ''  Generated: bbduk.html''"
    "output_file_of (lit ''bbduk'') = join TOOLS_DIR (lit ''bbduk.html'')"
    by (simp_all add: generated_line_def output_file_of_def lit_def)
  have e: "writable scenario_env q" "printable scenario_env q" "makedirs_ok scenario_env"
    "version_file scenario_env = Absent" "file_at scenario_env q = Bytes scenario_bytes"
    "shell_scripts scenario_env = [join BBTOOLS_DIR (lit ''bbduk.sh'')]" for q
    by (simp_all add: scenario_env_def)
  have a: "tool_name_of (join BBTOOLS_DIR (lit ''bbduk.sh'')) \<notin> set excluded"
    by (simp add: example_tool_names example_excluded)
  have b: "extract_tool_info (file_at scenario_env (join BBTOOLS_DIR (lit ''bbduk.sh'')))
           = (Some (lit ''Compresses reads.''), Some [], Some [])"
    by (simp add: e scenario_info)
  have p: "process_script scenario_env start (join BBTOOLS_DIR (lit ''bbduk.sh''))
      = Inr (start\<lparr>files := [(join TOOLS_DIR (lit ''bbduk.html''), scenario_html)],
               stdout := stdout start @ [lit ''  Generated: bbduk.html''],
               generated := 1\<rparr>)"
    using process_page [OF a b t, of start]
    by (simp add: e n example_tool_names scenario_html_def start_def initial_def)
  have bp: "print_all scenario_env initial banner = Inr start"
    by (rule banner_printed) (simp add: e list_all_iff)
  have c: "str_nat 1 = lit ''1''" "str_nat 0 = lit ''0''" by (simp_all add: lit_def)
  have pa: "print_all scenario_env s ls = Inr (s\<lparr>stdout := stdout s @ ls\<rparr>)" for s ls
    by (rule print_all_ok) (simp add: e list_all_iff)
  let ?S = "start\<lparr>files := [(join TOOLS_DIR (lit ''bbduk.html''), scenario_html)],
               stdout := stdout start @ [lit ''  Generated: bbduk.html''],
               generated := 1\<rparr>"
  have "main scenario_env = print_all scenario_env ?S (summary ?S)"
    by (simp add: main_def bp e(3,6) p)
  also have "\<dots> = Inr (?S\<lparr>stdout := stdout ?S @ summary ?S\<rparr>)"
    by (rule pa)
  finally show ?thesis
    by (simp add: summary_def summary_lines_def start_def initial_def c lit_def)
qed

text \<open>
  Claim C1, as the code has it. For the script \<open>bbduk.sh\<close> with the content
  \<open>Description:\nCompresses reads.\n\nUsage:\nbbduk.sh in=reads.fq\<close> the run writes one
  file, \<open>bbduk.html\<close> in the tools directory. Its body contains \<open>Compresses reads.\<close>.
  The usage of the script runs to the end of the file, so the extracted usage is empty
  and the usage box contains the placeholder \<open>bbduk.sh [parameters]\<close>.
\<close>

theorem scenario_page:
  \<open>extract_tool_info (Bytes scenario_bytes) = (Some (lit ''Compresses reads.''), Some [], Some [])
   \<and> (case main scenario_env of
         Inl err \<Rightarrow> False
       | Inr s \<Rightarrow> files s = [(join TOOLS_DIR (lit ''bbduk.html''), scenario_html)]
                  \<and> generated s = 1 \<and> skipped s = 0)
   \<and> contains (lit ''<p>Compresses reads.</p>'') scenario_html
   \<and> contains (lit ''<div class="usage-box">\<newline>                bbduk.sh [parameters]\<newline>            </div>'')
        scenario_html\<close>
proof (intro conjI)
  show "extract_tool_info (Bytes scenario_bytes) = (Some (lit ''Compresses reads.''), Some [], Some [])"
    by (rule scenario_info)
  show "case main scenario_env of
         Inl err \<Rightarrow> False
       | Inr s \<Rightarrow> files s = [(join TOOLS_DIR (lit ''bbduk.html''), scenario_html)]
                  \<and> generated s = 1 \<and> skipped s = 0"
    by (simp add: scenario_main) (simp add: start_def initial_def)
  obtain a where a: "page_h1 = a @ lit ''<p>''" using page_h1_ends by blast
  obtain b c where b: "page_usage = lit ''</p>'' @ b"
    and c: \<open>page_usage = c @ lit ''<div class="usage-box">\<newline>                ''\<close>
    using page_usage_ends by blast
  obtain d where d: "page_about = lit ''\<newline>            </div>'' @ d"
    using page_about_begins by blast
  have "contains (lit ''<p>'' @ lit ''Compresses reads.'' @ lit ''</p>'') scenario_html"
    unfolding scenario_html_eq
    by (rule contains_between [where a = a and b = b
          and p = "page_head @ lit ''BBDuk'' @ page_meta @ lit ''Compresses reads.'' @ page_nav
                   @ lit ''bbduk'' @ page_header @ lit ''BBDuk''"])
       (simp add: a b [symmetric])
  then show "contains (lit ''<p>Compresses reads.</p>'') scenario_html"
    by (simp add: lit_def)
  have \<open>contains (lit ''<div class="usage-box">\<newline>                ''
           @ lit ''bbduk.sh [parameters]'' @ lit ''\<newline>            </div>'') scenario_html\<close>
    unfolding scenario_html_eq
    by (rule contains_between [where a = c and b = d
          and p = "page_head @ lit ''BBDuk'' @ page_meta @ lit ''Compresses reads.'' @ page_nav
                   @ lit ''bbduk'' @ page_header @ lit ''BBDuk'' @ page_h1
                   @ lit ''Compresses reads.''"])
       (simp add: c [symmetric] d [symmetric])
  then show \<open>contains (lit ''<div class="usage-box">\<newline>                bbduk.sh [parameters]\<newline>            </div>'')
        scenario_html\<close>
    by (simp add: lit_def)
qed

text \<open>
  Claim C1 as stated fails: the extracted usage is empty, and the page written for the
  scenario contains \<open>bbduk.sh in=reads.fq\<close> nowhere, in the usage box or elsewhere.
\<close>

theorem scenario_usage_counterexample:
  "extract_usage (lit scenario_bytes) = []
   \<and> (case main scenario_env of
         Inl err \<Rightarrow> False
       | Inr s \<Rightarrow> files s = [(join TOOLS_DIR (lit ''bbduk.html''), scenario_html)])
   \<and> \<not> contains (lit ''bbduk.sh in=reads.fq'') scenario_html"
proof -
  have "113 \<in> set (lit ''bbduk.sh in=reads.fq'')" by (simp add: lit_def)
  then have "\<not> contains (lit ''bbduk.sh in=reads.fq'') scenario_html"
    using scenario_html_without_q by (rule not_contains_by_char)
  then show ?thesis by (simp add: scenario_fields scenario_main)
qed

text \<open>
  Claim C4 at a script that says \<open>Written by Jane Doe\<close>: the extractor finds the name,
  but the triple it returns has no author, and the page names Brian Bushnell and does
  not contain the name of the script's author.
\<close>

theorem author_dropped:
  "extract_author (lit authored_bytes) = lit ''Jane Doe''
   \<and> extract_tool_info (Bytes authored_bytes) = (Some (lit ''x''), Some (lit ''y''), Some [])
   \<and> contains (lit ''<strong>Author:</strong> Brian Bushnell<br>'') authored_html
   \<and> \<not> contains (lit ''Jane Doe'') authored_html"
proof (intro conjI)
  show "extract_author (lit authored_bytes) = lit ''Jane Doe''"
    by (simp add: authored_bytes_def lit_def extract_author_def author_match_def
        label_line_at_def rest_of_line_def)
  have "read_text (Bytes authored_bytes) = Some (lit authored_bytes)"
    by (rule read_text_ascii) (simp_all add: authored_bytes_def lit_def)
  then show "extract_tool_info (Bytes authored_bytes) = (Some (lit ''x''), Some (lit ''y''), Some [])"
    by (simp add: extract_tool_info_def Let_def authored_bytes_def lit_def
      extract_description_def extract_usage_def
      extract_last_modified_def desc_match_def usage_match_def modified_match_def
      label_block_at_def label_line_at_def desc_look_def usage_look_def is_space_def
      strip_def replace_char_def)
  show "contains (lit ''<strong>Author:</strong> Brian Bushnell<br>'') authored_html"
    unfolding authored_html_eq
    using contains_inside [OF page_author_names,
        of "page_head @ lit ''TOOL'' @ page_meta @ lit ''x'' @ page_nav @ lit ''tool''
     @ page_header @ lit ''TOOL'' @ page_h1 @ lit ''x''
     @ page_usage @ lit ''y'' @ page_about @ lit ''x''
     @ page_info @ lit ''See source''" "lit ''39.34''
     @ page_examples @ lit ''tool'' @ page_tail"]
    by simp
  have "74 \<in> set (lit ''Jane Doe'')" by (simp add: lit_def)
  then show "\<not> contains (lit ''Jane Doe'') authored_html"
    using authored_html_without_J by (rule not_contains_by_char)
qed

end
